theory Spec2Isabelle
  imports Complex_Main "HOL-Library.Char_ord" "HOL-Library.List_Lexorder"
begin

section \<open>Data model (scripts/neo4j/models.py)\<close>

text \<open>
  The operation modules send Cypher queries to a property graph. The graph is modelled
  as explicit state: lists of entity nodes, meeting nodes, \<open>MENTIONED_IN\<close> edges from an
  entity to a meeting, and typed edges between two entities. A node has an identity of
  its own (\<open>n_nid\<close>, \<open>mt_nid\<close>), distinct from its \<open>id\<close> property; edges refer to
  it. Every query is one function from graph to graph: its clauses are applied in order,
  each to every row that the clause before it produced.

  Timestamps are integers, Python floats are the reals they denote, and \<open>datetime()\<close>
  (the time of the query) and \<open>uuid.uuid4()\<close> are arguments of the operation that
  uses them. Python's \<open>str.lower\<close> is an argument too, named \<open>lower\<close>.

  An operation that can raise returns a sum, with the error on the left; the graph after
  a call that raised is the graph before it. Failures of the connection and the
  interleaving of concurrent queries inside the store are outside the model.
\<close>

type_synonym timestamp = int

datatype EntityType =
  PERSON | ORGANIZATION | PROJECT | TOPIC | TECHNOLOGY | PRODUCT | LOCATION | DATE | OTHER

datatype RelationshipType =
  MENTIONED_IN | WORKS_AT | MANAGES | COLLABORATES_WITH | ASSIGNED_TO | REPORTS_TO
  | USES | RELATED_TO | DEPENDS_ON | LOCATED_IN | SCHEDULED_FOR | CREATED_IN

text \<open>\<open>value.capitalize()\<close> of a member: the label of the node beside \<open>Entity\<close>.\<close>

fun entity_label :: "EntityType \<Rightarrow> string" where
  "entity_label PERSON = ''Person''"
| "entity_label ORGANIZATION = ''Organization''"
| "entity_label PROJECT = ''Project''"
| "entity_label TOPIC = ''Topic''"
| "entity_label TECHNOLOGY = ''Technology''"
| "entity_label PRODUCT = ''Product''"
| "entity_label LOCATION = ''Location''"
| "entity_label DATE = ''Date''"
| "entity_label OTHER = ''Other''"

fun relationship_type_value :: "RelationshipType \<Rightarrow> string" where
  "relationship_type_value MENTIONED_IN = ''MENTIONED_IN''"
| "relationship_type_value WORKS_AT = ''WORKS_AT''"
| "relationship_type_value MANAGES = ''MANAGES''"
| "relationship_type_value COLLABORATES_WITH = ''COLLABORATES_WITH''"
| "relationship_type_value ASSIGNED_TO = ''ASSIGNED_TO''"
| "relationship_type_value REPORTS_TO = ''REPORTS_TO''"
| "relationship_type_value USES = ''USES''"
| "relationship_type_value RELATED_TO = ''RELATED_TO''"
| "relationship_type_value DEPENDS_ON = ''DEPENDS_ON''"
| "relationship_type_value LOCATED_IN = ''LOCATED_IN''"
| "relationship_type_value SCHEDULED_FOR = ''SCHEDULED_FOR''"
| "relationship_type_value CREATED_IN = ''CREATED_IN''"

text \<open>What the code can raise: \<open>ValueError\<close> from \<open>float\<close>, \<open>AttributeError\<close> from an
  attribute access, and the store's \<open>ConstraintError\<close> and \<open>CypherSyntaxError\<close>, which
  \<open>run_query\<close> passes on.\<close>

datatype error = ValueError | AttributeError | ConstraintError | CypherSyntaxError

text \<open>What the field \<open>type\<close> of an \<open>Entity\<close> holds: a member of the enumeration, or a
  plain \<open>str\<close>.\<close>

datatype type_field = Member EntityType | Value string

fun entity_type_value :: "EntityType \<Rightarrow> string" where
  "entity_type_value PERSON = ''person''"
| "entity_type_value ORGANIZATION = ''organization''"
| "entity_type_value PROJECT = ''project''"
| "entity_type_value TOPIC = ''topic''"
| "entity_type_value TECHNOLOGY = ''technology''"
| "entity_type_value PRODUCT = ''product''"
| "entity_type_value LOCATION = ''location''"
| "entity_type_value DATE = ''date''"
| "entity_type_value OTHER = ''other''"

text \<open>\<open>Entity\<close> has \<open>Config.use_enum_values = True\<close>: its constructor stores the value of
  the member it is given, a \<open>str\<close>, in the field.\<close>

definition validated :: "EntityType \<Rightarrow> type_field" where
  "validated t = Value (entity_type_value t)"

text \<open>The pydantic model \<open>Entity\<close>: the argument of \<open>upsert_entity\<close>.\<close>

record Entity =
  e_id :: string
  e_user_id :: string
  e_type :: type_field
  e_normalized_value :: string
  e_display_value :: string
  e_aliases :: "string list"
  e_description :: "string option"
  e_mention_count :: int
  e_confidence :: real
  e_first_seen :: timestamp
  e_last_seen :: timestamp
  e_sentiment_avg :: "real option"
  e_is_user_created :: bool

text \<open>The pydantic model \<open>EntityMention\<close>: the argument of \<open>add_mention\<close>.\<close>

record EntityMention =
  em_entity_id :: string
  em_meeting_id :: string
  em_context :: string
  em_timestamp_start :: "real option"
  em_timestamp_end :: "real option"
  em_speaker :: "string option"
  em_mention_count :: int
  em_sentiment :: "real option"

text \<open>A property value of an edge between entities (\<open>Dict[str, Any]\<close>).\<close>

datatype pval = PInt int | PFloat real | PStr string | PTime timestamp

text \<open>The pydantic model \<open>EntityRelationship\<close>: the argument of \<open>create_relationship\<close>.\<close>

record EntityRelationship =
  er_from_entity_id :: string
  er_to_entity_id :: string
  er_relationship_type :: RelationshipType
  er_confidence :: real
  er_source :: string
  er_properties :: "string \<rightharpoonup> pval"

subsection \<open>The stored graph\<close>

text \<open>An \<open>:Entity:<Label>\<close> node with the properties the queries set on it.\<close>

record entity_node =
  n_nid :: nat
  n_label :: string
  n_id :: string
  n_user_id :: string
  n_normalized_value :: string
  n_display_value :: string
  n_aliases :: "string list"
  n_description :: "string option"
  n_mention_count :: int
  n_confidence :: real
  n_first_seen :: timestamp
  n_last_seen :: timestamp
  n_sentiment_avg :: "real option"
  n_is_user_created :: bool
  n_created_at :: timestamp
  n_updated_at :: "timestamp option"

text \<open>A \<open>:Meeting\<close> node; the operations below match it by \<open>id\<close> only.\<close>

record meeting_node =
  mt_nid :: nat
  mt_id :: string
  mt_user_id :: string
  mt_title :: string

text \<open>A \<open>MENTIONED_IN\<close> edge from the entity node \<open>r_src\<close> to the meeting node
  \<open>r_dst\<close>. Every query that creates one sets its \<open>mention_count\<close>.\<close>

record mention_edge =
  r_src :: nat
  r_dst :: nat
  r_context :: string
  r_timestamp_start :: "real option"
  r_timestamp_end :: "real option"
  r_speaker :: "string option"
  r_mention_count :: int
  r_sentiment :: "real option"
  r_created_at :: "timestamp option"
  r_updated_at :: "timestamp option"

text \<open>An edge of type \<open>x_type\<close> from the entity node \<open>x_src\<close> to the entity node
  \<open>x_dst\<close>, with its property map.\<close>

record rel_edge =
  x_src :: nat
  x_dst :: nat
  x_type :: string
  x_props :: "string \<rightharpoonup> pval"

record graph =
  entities :: "entity_node list"
  meetings :: "meeting_node list"
  mentions :: "mention_edge list"
  relationships :: "rel_edge list"
  next_nid :: nat

section \<open>Entity operations (scripts/neo4j/operations/entities.py)\<close>

subsection \<open>\<open>upsert_entity\<close>\<close>

text \<open>\<open>label = entity.type.value.capitalize()\<close>, the first statement of the method. A
  member of the enumeration has the attribute \<open>value\<close>; a \<open>str\<close> has none, the access
  raises \<open>AttributeError\<close> and no query is sent. The method has no guard for it
  (\<open>create_relationship\<close> has one, with \<open>hasattr\<close>).\<close>

definition label_of :: "type_field \<Rightarrow> error + string" where
  "label_of ty = (case ty of Member t \<Rightarrow> Inr (entity_label t) | Value s \<Rightarrow> Inl AttributeError)"

text \<open>The pattern of the \<open>MERGE\<close>:
  \<open>(e:Entity:<label> {user_id: $user_id, normalized_value: $normalized_value})\<close>.\<close>

definition merge_pattern :: "string \<Rightarrow> string \<Rightarrow> string \<Rightarrow> entity_node \<Rightarrow> bool" where
  "merge_pattern label uid nv n \<longleftrightarrow>
     n_label n = label \<and> n_user_id n = uid \<and> n_normalized_value n = nv"

text \<open>\<open>ON MATCH SET\<close>: the count grows by the parameter, \<open>last_seen\<close> is set to the
  parameter, and the aliases that the node does not have yet are appended.\<close>

definition on_match_set :: "timestamp \<Rightarrow> Entity \<Rightarrow> entity_node \<Rightarrow> entity_node" where
  "on_match_set now entity n =
     n\<lparr> n_mention_count := n_mention_count n + e_mention_count entity,
        n_last_seen := e_last_seen entity,
        n_aliases :=
          (if length [a \<leftarrow> e_aliases entity. a \<notin> set (n_aliases n)] > 0
           then n_aliases n @ [a \<leftarrow> e_aliases entity. a \<notin> set (n_aliases n)]
           else n_aliases n),
        n_updated_at := Some now \<rparr>"

text \<open>\<open>ON CREATE SET\<close>: the new node, with \<open>entity.id or str(uuid.uuid4())\<close> as its
  id and the lowered \<open>normalized_value\<close> of the pattern.\<close>

definition on_create_set ::
  "string \<Rightarrow> timestamp \<Rightarrow> nat \<Rightarrow> string \<Rightarrow> string \<Rightarrow> Entity \<Rightarrow> entity_node" where
  "on_create_set uuid4 now nid label nv entity =
     \<lparr> n_nid = nid, n_label = label,
       n_id = (if e_id entity = [] then uuid4 else e_id entity),
       n_user_id = e_user_id entity,
       n_normalized_value = nv,
       n_display_value = e_display_value entity,
       n_aliases = e_aliases entity,
       n_description = e_description entity,
       n_mention_count = e_mention_count entity,
       n_confidence = e_confidence entity,
       n_first_seen = e_first_seen entity,
       n_last_seen = e_last_seen entity,
       n_sentiment_avg = e_sentiment_avg entity,
       n_is_user_created = e_is_user_created entity,
       n_created_at = now,
       n_updated_at = None \<rparr>"

text \<open>The method. After the label, one query: \<open>MERGE ... ON CREATE SET ... ON MATCH SET
  ... RETURN e\<close>, whose first returned row is the result (\<open>run_single_query\<close>). The
  constraint \<open>entity_id\<close> of \<open>setup_schema.py\<close> (\<open>e.id IS UNIQUE\<close>) makes the store
  refuse a created node whose id another entity node has; the method passes the error
  on.\<close>

definition upsert_entity ::
  "(string \<Rightarrow> string) \<Rightarrow> string \<Rightarrow> timestamp \<Rightarrow> graph \<Rightarrow> Entity
     \<Rightarrow> error + entity_node option \<times> graph" where
  "upsert_entity lower uuid4 now g entity =
     (case label_of (e_type entity) of
        Inl err \<Rightarrow> Inl err
      | Inr label \<Rightarrow>
          (let nv = lower (e_normalized_value entity);
               hit = merge_pattern label (e_user_id entity) nv
           in if list_ex hit (entities g)
              then (let es = map (\<lambda>n. if hit n then on_match_set now entity n else n)
                               (entities g)
                    in Inr (find hit es, g\<lparr>entities := es\<rparr>))
              else (let n = on_create_set uuid4 now (next_nid g) label nv entity
                    in if list_ex (\<lambda>m. n_id m = n_id n) (entities g)
                       then Inl ConstraintError
                       else Inr (Some n, g\<lparr>entities := entities g @ [n],
                                            next_nid := Suc (next_nid g)\<rparr>))))"

text \<open>A sequence of calls, each with the uuid and the time it runs with. A call that
  raises leaves the graph as it is.\<close>

fun upsert_all ::
  "(string \<Rightarrow> string) \<Rightarrow> graph \<Rightarrow> (string \<times> timestamp \<times> Entity) list \<Rightarrow> graph" where
  "upsert_all lower g [] = g"
| "upsert_all lower g ((uuid4, now, entity) # calls) =
     upsert_all lower
       (case upsert_entity lower uuid4 now g entity of Inl err \<Rightarrow> g | Inr (row, g') \<Rightarrow> g')
       calls"

text \<open>The nodes with a given key (label, owner, normalized value).\<close>

definition with_key :: "graph \<Rightarrow> string \<Rightarrow> string \<Rightarrow> string \<Rightarrow> entity_node list" where
  "with_key g label uid nv = filter (merge_pattern label uid nv) (entities g)"

subsection \<open>\<open>add_mention\<close>\<close>

text \<open>\<open>MATCH (e:Entity {id: $entity_id})\<close> and \<open>MATCH (m:Meeting {id: $meeting_id})\<close>.\<close>

definition match_entity_id :: "graph \<Rightarrow> string \<Rightarrow> entity_node list" where
  "match_entity_id g i = [n \<leftarrow> entities g. n_id n = i]"

definition match_meeting_id :: "graph \<Rightarrow> string \<Rightarrow> meeting_node list" where
  "match_meeting_id g i = [m \<leftarrow> meetings g. mt_id m = i]"

text \<open>The pattern \<open>(a)-[r:MENTIONED_IN]->(b)\<close> for bound nodes \<open>a\<close> and \<open>b\<close>.\<close>

definition connects :: "nat \<Rightarrow> nat \<Rightarrow> mention_edge \<Rightarrow> bool" where
  "connects a b r \<longleftrightarrow> r_src r = a \<and> r_dst r = b"

definition mention_on_create :: "timestamp \<Rightarrow> EntityMention \<Rightarrow> nat \<Rightarrow> nat \<Rightarrow> mention_edge" where
  "mention_on_create now mention a b =
     \<lparr> r_src = a, r_dst = b,
       r_context = em_context mention,
       r_timestamp_start = em_timestamp_start mention,
       r_timestamp_end = em_timestamp_end mention,
       r_speaker = em_speaker mention,
       r_mention_count = em_mention_count mention,
       r_sentiment = em_sentiment mention,
       r_created_at = Some now,
       r_updated_at = None \<rparr>"

definition mention_on_match :: "timestamp \<Rightarrow> EntityMention \<Rightarrow> mention_edge \<Rightarrow> mention_edge" where
  "mention_on_match now mention r =
     r\<lparr> r_mention_count := r_mention_count r + em_mention_count mention,
        r_updated_at := Some now \<rparr>"

text \<open>\<open>MERGE (e)-[r:MENTIONED_IN]->(m) ON CREATE SET ... ON MATCH SET ...\<close> for one row:
  every edge between the two nodes is updated, and one is created when there is none.\<close>

fun merge_mention ::
  "timestamp \<Rightarrow> EntityMention \<Rightarrow> nat \<times> nat \<Rightarrow> mention_edge list \<Rightarrow> mention_edge list" where
  "merge_mention now mention (a, b) rs =
     (if list_ex (connects a b) rs
      then map (\<lambda>r. if connects a b r then mention_on_match now mention r else r) rs
      else rs @ [mention_on_create now mention a b])"

text \<open>The query returns a row for every edge matched or created, so the result of
  \<open>run_single_query\<close> is \<open>None\<close> exactly when the two \<open>MATCH\<close> clauses give no row.\<close>

definition add_mention :: "timestamp \<Rightarrow> graph \<Rightarrow> EntityMention \<Rightarrow> bool \<times> graph" where
  "add_mention now g mention =
     (let rows = [(n_nid e, mt_nid m).
                    e \<leftarrow> match_entity_id g (em_entity_id mention),
                    m \<leftarrow> match_meeting_id g (em_meeting_id mention)]
      in (rows \<noteq> [], g\<lparr>mentions := fold (merge_mention now mention) rows (mentions g)\<rparr>))"

definition mention_unique :: "graph \<Rightarrow> bool" where
  "mention_unique g \<longleftrightarrow> distinct (map (\<lambda>r. (r_src r, r_dst r)) (mentions g))"

subsection \<open>\<open>merge_entities\<close>\<close>

text \<open>\<open>MATCH (keep:Entity {id: $keep_id, user_id: $user_id})\<close>, and the same for
  \<open>merge\<close>.\<close>

definition match_owned :: "graph \<Rightarrow> string \<Rightarrow> string \<Rightarrow> entity_node list" where
  "match_owned g i uid = [n \<leftarrow> entities g. n_id n = i \<and> n_user_id n = uid]"

text \<open>The method sends one query, and the query has the clause
  \<open>MERGE (keep)-[nr:MENTIONED_IN]->(mention.meeting)\<close>. A node pattern admits a variable
  with labels and properties; \<open>mention.meeting\<close> is a property access, so the store
  refuses the text of the query, whatever its parameters, and runs none of it. Neither
  \<open>run_query\<close> nor the method handles the error: the call raises and returns no
  \<open>bool\<close>, and the graph stays as it is.\<close>

definition merge_entities ::
  "timestamp \<Rightarrow> graph \<Rightarrow> string \<Rightarrow> string \<Rightarrow> string \<Rightarrow> error + bool \<times> graph" where
  "merge_entities now g user_id keep_id merge_id = Inl CypherSyntaxError"

text \<open>\<open>get_entity\<close>, as far as its result is \<open>None\<close> or not:
  \<open>MATCH (e:Entity {id: $entity_id, user_id: $user_id})\<close>.\<close>

definition get_entity :: "graph \<Rightarrow> string \<Rightarrow> string \<Rightarrow> entity_node option" where
  "get_entity g entity_id user_id =
     (case match_owned g entity_id user_id of [] \<Rightarrow> None | e # _ \<Rightarrow> Some e)"

section \<open>Relationship operations (scripts/neo4j/operations/relationships.py)\<close>

text \<open>The class attribute \<open>VALID_RELATIONSHIPS\<close>. No method of the class reads it.\<close>

definition VALID_RELATIONSHIPS :: "((string \<times> string) \<times> string list) list" where
  "VALID_RELATIONSHIPS =
     [((''Person'', ''Organization''), [''WORKS_AT'', ''FOUNDED'', ''LEADS'']),
      ((''Person'', ''Project''), [''MANAGES'', ''WORKS_ON'', ''OWNS'']),
      ((''Person'', ''Person''), [''COLLABORATES_WITH'', ''REPORTS_TO'', ''MENTORS'']),
      ((''Person'', ''ActionItem''), [''ASSIGNED_TO'']),
      ((''Project'', ''Technology''), [''USES'', ''BUILT_WITH'']),
      ((''Project'', ''Topic''), [''RELATED_TO'', ''ADDRESSES'']),
      ((''Organization'', ''Location''), [''LOCATED_IN'', ''OPERATES_IN'']),
      ((''ActionItem'', ''Date''), [''SCHEDULED_FOR'', ''DUE_ON''])]"

text \<open>The relationship types the table allows from a node labelled \<open>a\<close> to one
  labelled \<open>b\<close>.\<close>

definition allowed_types :: "string \<Rightarrow> string \<Rightarrow> string list" where
  "allowed_types a b = (case map_of VALID_RELATIONSHIPS (a, b) of None \<Rightarrow> [] | Some ts \<Rightarrow> ts)"

subsection \<open>\<open>create_relationship\<close>\<close>

text \<open>The edge pattern \<open>(a)-[x:<type>]->(b)\<close> for bound nodes.\<close>

definition between :: "nat \<Rightarrow> nat \<Rightarrow> string \<Rightarrow> rel_edge \<Rightarrow> bool" where
  "between a b ty x \<longleftrightarrow> x_src x = a \<and> x_dst x = b \<and> x_type x = ty"

text \<open>The property map handed to \<open>apoc.create.relationship\<close>: \<open>created_at\<close> is the
  text \<open>"datetime()"\<close>, and \<open>**rel.properties\<close> overrides the three keys before it.\<close>

definition apoc_properties :: "EntityRelationship \<Rightarrow> (string \<rightharpoonup> pval)" where
  "apoc_properties rel =
     [''confidence'' \<mapsto> PFloat (er_confidence rel),
      ''source'' \<mapsto> PStr (er_source rel),
      ''created_at'' \<mapsto> PStr ''datetime()''] ++ er_properties rel"

text \<open>The properties of the fallback \<open>CREATE\<close>.\<close>

definition fallback_properties :: "timestamp \<Rightarrow> EntityRelationship \<Rightarrow> (string \<rightharpoonup> pval)" where
  "fallback_properties now rel =
     [''confidence'' \<mapsto> PFloat (er_confidence rel),
      ''source'' \<mapsto> PStr (er_source rel),
      ''created_at'' \<mapsto> PTime now]"

text \<open>\<open>apoc\<close> says whether the procedure \<open>apoc.create.relationship\<close> is installed; when
  it is not, the first query raises and the handler runs the fallback. Both queries match
  the two endpoints by id and create one edge for every row.\<close>

definition create_relationship ::
  "bool \<Rightarrow> timestamp \<Rightarrow> graph \<Rightarrow> EntityRelationship \<Rightarrow> bool \<times> graph" where
  "create_relationship apoc now g rel =
     (let rows = [(n_nid f, n_nid t).
                    f \<leftarrow> match_entity_id g (er_from_entity_id rel),
                    t \<leftarrow> match_entity_id g (er_to_entity_id rel)];
          rel_type = relationship_type_value (er_relationship_type rel);
          properties = (if apoc then apoc_properties rel else fallback_properties now rel);
          created = map (\<lambda>(a, b). \<lparr> x_src = a, x_dst = b, x_type = rel_type,
                                     x_props = properties \<rparr>) rows
      in (rows \<noteq> [], g\<lparr>relationships := relationships g @ created\<rparr>))"

subsection \<open>\<open>infer_collaborations\<close>\<close>

definition is_person :: "entity_node \<Rightarrow> bool" where
  "is_person n \<longleftrightarrow> n_label n = ''Person''"

definition mentioned_in :: "graph \<Rightarrow> nat \<Rightarrow> nat \<Rightarrow> bool" where
  "mentioned_in g a m \<longleftrightarrow> list_ex (connects a m) (mentions g)"

text \<open>The meetings \<open>m\<close> of the pattern
  \<open>(p1)-[:MENTIONED_IN]->(m:Meeting)<-[:MENTIONED_IN]-(p2)\<close>, each once
  (\<open>count(DISTINCT m)\<close> is the length of this list).\<close>

definition shared_meetings :: "graph \<Rightarrow> nat \<Rightarrow> nat \<Rightarrow> nat list" where
  "shared_meetings g a b =
     remdups [mt_nid m. m \<leftarrow> meetings g, mentioned_in g a (mt_nid m) \<and> mentioned_in g b (mt_nid m)]"

definition meeting_count :: "graph \<Rightarrow> nat \<Rightarrow> nat \<Rightarrow> int" where
  "meeting_count g a b = int (length (shared_meetings g a b))"

text \<open>The rows that reach the \<open>MERGE\<close>: the \<open>MATCH\<close> with its \<open>WHERE\<close>, grouped by
  \<open>p1, p2\<close>, and the \<open>WHERE meeting_count >= $min_co_occurrences\<close>. A pair with no
  shared meeting gives no row at all.\<close>

definition collaboration_rows :: "graph \<Rightarrow> string \<Rightarrow> int \<Rightarrow> (nat \<times> nat \<times> int) list" where
  "collaboration_rows g user_id min_co_occurrences =
     [(n_nid p1, n_nid p2, meeting_count g (n_nid p1) (n_nid p2)).
        p1 \<leftarrow> entities g, is_person p1 \<and> n_user_id p1 = user_id,
        p2 \<leftarrow> entities g, is_person p2 \<and> n_id p1 < n_id p2 \<and> n_user_id p1 = n_user_id p2,
        shared_meetings g (n_nid p1) (n_nid p2) \<noteq> [],
        meeting_count g (n_nid p1) (n_nid p2) \<ge> min_co_occurrences]"

definition collab_on_create :: "timestamp \<Rightarrow> nat \<Rightarrow> nat \<Rightarrow> int \<Rightarrow> rel_edge" where
  "collab_on_create now a b c =
     \<lparr> x_src = a, x_dst = b, x_type = ''COLLABORATES_WITH'',
       x_props = [''strength'' \<mapsto> PInt c, ''source'' \<mapsto> PStr ''inferred'',
                  ''created_at'' \<mapsto> PTime now] \<rparr>"

definition collab_on_match :: "timestamp \<Rightarrow> int \<Rightarrow> rel_edge \<Rightarrow> rel_edge" where
  "collab_on_match now c x =
     x\<lparr> x_props := (x_props x)(''strength'' \<mapsto> PInt c, ''updated_at'' \<mapsto> PTime now) \<rparr>"

text \<open>\<open>MERGE (p1)-[r:COLLABORATES_WITH]->(p2) ON CREATE SET ... ON MATCH SET ...\<close> for
  one row, with the running \<open>count(r)\<close>.\<close>

fun merge_collaboration ::
  "timestamp \<Rightarrow> nat \<times> nat \<times> int \<Rightarrow> rel_edge list \<times> int \<Rightarrow> rel_edge list \<times> int" where
  "merge_collaboration now (a, b, c) (xs, created) =
     (if list_ex (between a b ''COLLABORATES_WITH'') xs
      then (map (\<lambda>x. if between a b ''COLLABORATES_WITH'' x then collab_on_match now c x else x) xs,
            created + int (length (filter (between a b ''COLLABORATES_WITH'') xs)))
      else (xs @ [collab_on_create now a b c], created + 1))"

definition infer_collaborations :: "timestamp \<Rightarrow> graph \<Rightarrow> string \<Rightarrow> int \<Rightarrow> int \<times> graph" where
  "infer_collaborations now g user_id min_co_occurrences =
     (let (xs, created) = fold (merge_collaboration now)
                            (collaboration_rows g user_id min_co_occurrences)
                            (relationships g, 0)
      in (created, g\<lparr>relationships := xs\<rparr>))"

text \<open>The default of the parameter \<open>min_co_occurrences\<close>.\<close>

definition default_min_co_occurrences :: int where
  "default_min_co_occurrences = 3"

subsection \<open>Notions used to state the refresh\<close>

text \<open>The edges after the \<open>MERGE\<close> of one row, without the running count.\<close>

definition refresh_edges ::
  "timestamp \<Rightarrow> nat \<times> nat \<times> int \<Rightarrow> rel_edge list \<Rightarrow> rel_edge list" where
  "refresh_edges now row xs = fst (merge_collaboration now row (xs, 0))"

text \<open>The \<open>COLLABORATES_WITH\<close> edges from the node \<open>a\<close> to the node \<open>b\<close>.\<close>

definition collaborations :: "graph \<Rightarrow> nat \<Rightarrow> nat \<Rightarrow> rel_edge list" where
  "collaborations g a b = filter (between a b ''COLLABORATES_WITH'') (relationships g)"

text \<open>Two edges with the same ends, type and properties, \<open>updated_at\<close> apart.\<close>

definition same_but_updated_at :: "rel_edge \<Rightarrow> rel_edge \<Rightarrow> bool" where
  "same_but_updated_at x y \<longleftrightarrow>
     x_src x = x_src y \<and> x_dst x = x_dst y \<and> x_type x = x_type y \<and>
     (x_props x)(''updated_at'' := None) = (x_props y)(''updated_at'' := None)"

section \<open>Extraction service (services/langextract/extractor.py, schemas.py)\<close>

text \<open>The dataclass \<open>GroundedEntity\<close>.\<close>

record GroundedEntity =
  ge_type :: string
  ge_value :: string
  ge_normalized_value :: string
  ge_confidence :: real
  ge_start_offset :: int
  ge_end_offset :: int
  ge_source_text :: string

text \<open>A value of the \<open>attributes\<close> dictionary: a string, or something without
  \<open>.lower()\<close>.\<close>

datatype attribute = AStr string | ANotStr

text \<open>One element of \<open>result.extractions\<close>, as the loop reads it. \<open>alignment_status\<close>
  is \<open>None\<close> when the object has no such attribute, and else the text that \<open>str\<close> gives
  for it.\<close>

record Extraction =
  extraction_class :: "string option"
  extraction_text :: "string option"
  attributes :: "(string \<rightharpoonup> attribute) option"
  char_interval :: "(int \<times> int) option"
  alignment_status :: "string option"

text \<open>The body of the loop. The result is \<open>None\<close> when the body raises and the handler
  skips the extraction.\<close>

definition ground :: "(string \<Rightarrow> string) \<Rightarrow> Extraction \<Rightarrow> GroundedEntity option" where
  "ground lower extraction =
     (let entity_type = (case extraction_class extraction of
                           None \<Rightarrow> ''topic''
                         | Some c \<Rightarrow> if c = [] then ''topic'' else c);
          entity_value = (case extraction_text extraction of None \<Rightarrow> [] | Some t \<Rightarrow> t);
          attrs = (case attributes extraction of None \<Rightarrow> Map.empty | Some a \<Rightarrow> a);
          offsets = (case char_interval extraction of None \<Rightarrow> (0, 0) | Some iv \<Rightarrow> iv);
          confidence = (case alignment_status extraction of
                          None \<Rightarrow> 0.8
                        | Some st \<Rightarrow> if st = ''EXACT'' then 1.0
                                    else if st = ''APPROXIMATE'' then 0.85 else 0.8)
      in case attrs ''normalized_value'' of
           Some ANotStr \<Rightarrow> None
         | Some (AStr v) \<Rightarrow>
             Some \<lparr> ge_type = entity_type, ge_value = entity_value,
                    ge_normalized_value = lower v, ge_confidence = confidence,
                    ge_start_offset = fst offsets, ge_end_offset = snd offsets,
                    ge_source_text = entity_value \<rparr>
         | None \<Rightarrow>
             Some \<lparr> ge_type = entity_type, ge_value = entity_value,
                    ge_normalized_value = lower entity_value, ge_confidence = confidence,
                    ge_start_offset = fst offsets, ge_end_offset = snd offsets,
                    ge_source_text = entity_value \<rparr>)"

text \<open>The list \<open>entities\<close> that the loop builds.\<close>

definition candidates :: "(string \<Rightarrow> string) \<Rightarrow> Extraction list \<Rightarrow> GroundedEntity list" where
  "candidates lower extractions = List.map_filter (ground lower) extractions"

text \<open>The two environment variables the function reads.\<close>

record environ =
  OPENAI_API_KEY :: "string option"
  MIN_CONFIDENCE :: "string option"

text \<open>\<open>float(os.getenv("MIN_CONFIDENCE", "0.7"))\<close>. The argument \<open>float\<close> is Python's
  \<open>float\<close> on the text of the variable, \<open>None\<close> where it raises.\<close>

definition min_confidence :: "(string \<Rightarrow> real option) \<Rightarrow> environ \<Rightarrow> error + real" where
  "min_confidence float env =
     (case MIN_CONFIDENCE env of
        None \<Rightarrow> Inr 0.7
      | Some s \<Rightarrow> (case float s of None \<Rightarrow> Inl ValueError | Some t \<Rightarrow> Inr t))"

text \<open>\<open>extract_entities\<close>. \<open>result\<close> is what \<open>lx.extract\<close> returns, \<open>None\<close> when it
  raises.\<close>

definition extract_entities ::
  "(string \<Rightarrow> string) \<Rightarrow> (string \<Rightarrow> real option) \<Rightarrow> environ \<Rightarrow> Extraction list option
     \<Rightarrow> error + GroundedEntity list" where
  "extract_entities lower float env result =
     (if OPENAI_API_KEY env = None \<or> OPENAI_API_KEY env = Some [] then Inr []
      else case result of
             None \<Rightarrow> Inr []
           | Some extractions \<Rightarrow>
               (let entities = candidates lower extractions
                in case min_confidence float env of
                     Inl e \<Rightarrow> Inl e
                   | Inr t \<Rightarrow> Inr [e \<leftarrow> entities. ge_confidence e \<ge> t]))"

section \<open>Example graphs\<close>

text \<open>One owner, two persons and an organization, three meetings, no edges.\<close>

definition ex_alice :: entity_node where
  "ex_alice =
     \<lparr> n_nid = 0, n_label = ''Person'', n_id = ''e1'', n_user_id = ''u1'',
       n_normalized_value = ''alice'', n_display_value = ''Alice'', n_aliases = [''al''],
       n_description = None, n_mention_count = 2, n_confidence = 0.9,
       n_first_seen = 100, n_last_seen = 200, n_sentiment_avg = None,
       n_is_user_created = False, n_created_at = 100, n_updated_at = None \<rparr>"

definition ex_bob :: entity_node where
  "ex_bob =
     \<lparr> n_nid = 1, n_label = ''Person'', n_id = ''e2'', n_user_id = ''u1'',
       n_normalized_value = ''bob'', n_display_value = ''Bob'', n_aliases = [],
       n_description = None, n_mention_count = 3, n_confidence = 0.8,
       n_first_seen = 110, n_last_seen = 210, n_sentiment_avg = None,
       n_is_user_created = False, n_created_at = 110, n_updated_at = None \<rparr>"

definition ex_acme :: entity_node where
  "ex_acme =
     \<lparr> n_nid = 2, n_label = ''Organization'', n_id = ''e3'', n_user_id = ''u1'',
       n_normalized_value = ''acme'', n_display_value = ''ACME'', n_aliases = [],
       n_description = None, n_mention_count = 1, n_confidence = 1,
       n_first_seen = 120, n_last_seen = 120, n_sentiment_avg = None,
       n_is_user_created = False, n_created_at = 120, n_updated_at = None \<rparr>"

definition ex_meeting :: "nat \<Rightarrow> string \<Rightarrow> meeting_node" where
  "ex_meeting k i = \<lparr> mt_nid = k, mt_id = i, mt_user_id = ''u1'', mt_title = ''Weekly'' \<rparr>"

definition ex_graph :: graph where
  "ex_graph =
     \<lparr> entities = [ex_alice, ex_bob, ex_acme],
       meetings = [ex_meeting 10 ''m1'', ex_meeting 11 ''m2'', ex_meeting 12 ''m3''],
       mentions = [], relationships = [], next_nid = 20 \<rparr>"

text \<open>\<open>Entity(id="", user_id="u1", type=EntityType.PERSON, normalized_value="alice",
  ...)\<close>: an \<open>Entity\<close> from its constructor, for the key of \<open>ex_alice\<close>, with the count,
  the \<open>last_seen\<close> and the aliases given.\<close>

definition ex_entity :: "int \<Rightarrow> timestamp \<Rightarrow> string list \<Rightarrow> Entity" where
  "ex_entity delta seen als =
     \<lparr> e_id = [], e_user_id = ''u1'', e_type = validated PERSON,
       e_normalized_value = ''alice'', e_display_value = ''ALICE'', e_aliases = als,
       e_description = Some ''new'', e_mention_count = delta, e_confidence = 0.5,
       e_first_seen = seen, e_last_seen = seen, e_sentiment_avg = None,
       e_is_user_created = True \<rparr>"

text \<open>The graph with nothing in it.\<close>

definition ex_empty :: graph where
  "ex_empty = \<lparr> entities = [], meetings = [], mentions = [], relationships = [], next_nid = 0 \<rparr>"

text \<open>A mention with count 1 of the entity \<open>i\<close> in the meeting \<open>j\<close>.\<close>

definition ex_mention :: "string \<Rightarrow> string \<Rightarrow> string \<Rightarrow> EntityMention" where
  "ex_mention i j c =
     \<lparr> em_entity_id = i, em_meeting_id = j, em_context = c,
       em_timestamp_start = Some 1.5, em_timestamp_end = None, em_speaker = Some ''S1'',
       em_mention_count = 1, em_sentiment = None \<rparr>"

text \<open>A \<open>MENTIONED_IN\<close> edge with the given ends, count and context.\<close>

definition ex_edge :: "nat \<Rightarrow> nat \<Rightarrow> int \<Rightarrow> string \<Rightarrow> mention_edge" where
  "ex_edge a b c ctx =
     \<lparr> r_src = a, r_dst = b, r_context = ctx, r_timestamp_start = None,
       r_timestamp_end = None, r_speaker = None, r_mention_count = c, r_sentiment = None,
       r_created_at = Some 130, r_updated_at = None \<rparr>"

text \<open>\<open>ex_graph\<close> with Alice mentioned in the first meeting and Bob in the first two.\<close>

definition ex_mentioned :: graph where
  "ex_mentioned =
     ex_graph\<lparr>mentions := [ex_edge 0 10 1 ''a1'', ex_edge 1 10 1 ''b1'', ex_edge 1 11 2 ''b2'']\<rparr>"

text \<open>An \<open>EntityRelationship\<close> with no extra properties.\<close>

definition ex_rel ::
  "string \<Rightarrow> string \<Rightarrow> RelationshipType \<Rightarrow> string \<Rightarrow> EntityRelationship" where
  "ex_rel i j ty src =
     \<lparr> er_from_entity_id = i, er_to_entity_id = j, er_relationship_type = ty,
       er_confidence = 0.9, er_source = src, er_properties = Map.empty \<rparr>"

text \<open>\<open>ex_graph\<close> with Alice and Bob both mentioned in the three meetings.\<close>

definition ex_shared :: graph where
  "ex_shared =
     ex_graph\<lparr>mentions := [ex_edge 0 10 1 ''a1'', ex_edge 0 11 1 ''a2'', ex_edge 0 12 1 ''a3'',
                            ex_edge 1 10 1 ''b1'', ex_edge 1 11 1 ''b2'', ex_edge 1 12 1 ''b3'']\<rparr>"

text \<open>Three extractions: aligned exactly, with no alignment status, and with an attribute
  that is no string.\<close>

definition ex_extraction :: "string \<Rightarrow> string option \<Rightarrow> attribute option \<Rightarrow> Extraction" where
  "ex_extraction txt st attr =
     \<lparr> extraction_class = Some ''person'', extraction_text = Some txt,
       attributes = (case attr of None \<Rightarrow> None | Some a \<Rightarrow> Some [''normalized_value'' \<mapsto> a]),
       char_interval = Some (3, 7), alignment_status = st \<rparr>"

definition ex_extractions :: "Extraction list" where
  "ex_extractions =
     [ex_extraction ''Dana'' (Some ''EXACT'') (Some (AStr ''dana'')),
      ex_extraction ''Omer'' None None,
      ex_extraction ''Noa'' (Some ''EXACT'') (Some ANotStr)]"

definition ex_float :: "string \<Rightarrow> real option" where
  "ex_float s = (if s = ''0.9'' then Some 0.9 else None)"

section \<open>Properties of \<open>upsert_entity\<close>\<close>

lemmas ex_defs = ex_graph_def ex_alice_def ex_bob_def ex_acme_def ex_meeting_def ex_entity_def

lemma filter_map_if_same:
  assumes "\<And>x. P (f x) = P x"
  shows "filter P (map (\<lambda>x. if P x then f x else x) xs) = map f (filter P xs)"
  using assms by (induction xs) auto

lemma label_of_validated: "label_of (validated t) = Inl AttributeError"
  by (simp add: label_of_def validated_def)

text \<open>
  C1, where the code departs from it. For every \<open>Entity\<close> that its constructor built,
  \<open>upsert_entity\<close> raises \<open>AttributeError\<close> at \<open>entity.type.value\<close> and sends no query,
  in every graph. So the two calls for the key of Alice, with counts 1 and 4, leave the
  empty graph empty: no node has the key, where the claim has exactly one with count 5.
\<close>

theorem upsert_entity_raises:
  "upsert_entity lower uuid4 now g (entity\<lparr>e_type := validated t\<rparr>) = Inl AttributeError \<and>
   upsert_all (\<lambda>s. s) ex_empty
     [(''x1'', 300, ex_entity 1 300 []), (''x2'', 310, ex_entity 4 250 [''ally''])] = ex_empty \<and>
   with_key (upsert_all (\<lambda>s. s) ex_empty
     [(''x1'', 300, ex_entity 1 300 []), (''x2'', 310, ex_entity 4 250 [''ally''])])
     ''Person'' ''u1'' ''alice'' = []"
  by (simp add: upsert_entity_def label_of_validated ex_entity_def ex_empty_def with_key_def)

text \<open>
  C5, where the code departs from it. \<open>ex_graph\<close> has the node of Alice with count 2 and
  \<open>last_seen\<close> 200, and the \<open>Entity\<close> has her key, count 1 and \<open>last_seen\<close> 150. Built by
  its constructor it makes the call raise \<open>AttributeError\<close>: nothing is matched and the
  count stays 2. With a member of the enumeration in its \<open>type\<close> (an \<open>Entity\<close> made
  without validation) the query runs, the count becomes 3, and \<open>last_seen\<close> becomes 150,
  not the maximum 200.
\<close>

theorem upsert_entity_on_match_raises:
  "with_key ex_graph ''Person'' ''u1'' ''alice'' = [ex_alice] \<and>
   e_type (ex_entity 1 150 []) = validated PERSON \<and>
   upsert_entity (\<lambda>s. s) ''x1'' 300 ex_graph (ex_entity 1 150 []) = Inl AttributeError \<and>
   map_sum id (\<lambda>r. map_option (\<lambda>n. (n_mention_count n, n_last_seen n)) (fst r))
     (upsert_entity (\<lambda>s. s) ''x1'' 300 ex_graph ((ex_entity 1 150 [])\<lparr>e_type := Member PERSON\<rparr>))
     = Inr (Some (3, 150)) \<and>
   max (n_last_seen ex_alice) (e_last_seen (ex_entity 1 150 [])) = 200"
  by (simp add: ex_defs with_key_def merge_pattern_def upsert_entity_def label_of_def
      validated_def on_match_set_def Let_def)

section \<open>Properties of \<open>add_mention\<close>\<close>

lemma connects_on_match: "connects a b (mention_on_match now m r) = connects a b r"
  by (simp add: connects_def mention_on_match_def)

lemma ends_on_match:
  "(r_src (mention_on_match now m r), r_dst (mention_on_match now m r)) = (r_src r, r_dst r)"
  by (simp add: mention_on_match_def)

lemma merge_mention_distinct:
  assumes "distinct (map (\<lambda>r. (r_src r, r_dst r)) rs)"
  shows "distinct (map (\<lambda>r. (r_src r, r_dst r)) (merge_mention now m row rs))"
proof -
  obtain a b where row: "row = (a, b)" by (cases row)
  show ?thesis
  proof (cases "list_ex (connects a b) rs")
    case True
    have "map (\<lambda>r. (r_src r, r_dst r)) (merge_mention now m row rs) =
          map (\<lambda>r. (r_src r, r_dst r)) rs"
      using True row by (auto simp: mention_on_match_def)
    with assms show ?thesis by (simp only:)
  next
    case False
    then have "(a, b) \<notin> (\<lambda>r. (r_src r, r_dst r)) ` set rs"
      by (auto simp: list_ex_iff connects_def)
    with assms False row show ?thesis by (simp add: mention_on_create_def)
  qed
qed

lemma fold_merge_mention_distinct:
  "distinct (map (\<lambda>r. (r_src r, r_dst r)) rs) \<Longrightarrow>
   distinct (map (\<lambda>r. (r_src r, r_dst r)) (fold (merge_mention now m) rows rs))"
  by (induction rows arbitrary: rs) (simp_all add: merge_mention_distinct)

lemma mention_unique_add_mention:
  "mention_unique g \<Longrightarrow> mention_unique (snd (add_mention now g m))"
  by (simp add: mention_unique_def add_mention_def Let_def fold_merge_mention_distinct)

lemma add_mention_single:
  assumes "match_entity_id g (em_entity_id m) = [e]"
    and "match_meeting_id g (em_meeting_id m) = [mt]"
  shows "add_mention now g m =
     (True, g\<lparr>mentions := merge_mention now m (n_nid e, mt_nid mt) (mentions g)\<rparr>)"
  using assms by (simp add: add_mention_def)

lemma match_after_add_mention:
  "match_entity_id (snd (add_mention now g m)) i = match_entity_id g i"
  "match_meeting_id (snd (add_mention now g m)) j = match_meeting_id g j"
  by (simp_all add: add_mention_def match_entity_id_def match_meeting_id_def Let_def)

text \<open>
  C6. \<open>add_mention\<close> keeps the invariant that no two \<open>MENTIONED_IN\<close> edges join the
  same entity node and meeting node. When the entity and the meeting exist and no edge
  joins them yet, two calls for the pair leave exactly one edge between them; its
  \<open>mention_count\<close> is the sum of the two counts (2 for counts of 1), and its context,
  timestamps, speaker and sentiment are those of the first call.
\<close>

theorem add_mention_accumulates:
  assumes "mention_unique g"
    and "match_entity_id g (em_entity_id m1) = [e]"
    and "match_meeting_id g (em_meeting_id m1) = [mt]"
    and "em_entity_id m2 = em_entity_id m1" and "em_meeting_id m2 = em_meeting_id m1"
    and "\<not> mentioned_in g (n_nid e) (mt_nid mt)"
  shows "fst (add_mention t1 g m1) \<and>
     fst (add_mention t2 (snd (add_mention t1 g m1)) m2) \<and>
     mention_unique (snd (add_mention t1 g m1)) \<and>
     mention_unique (snd (add_mention t2 (snd (add_mention t1 g m1)) m2)) \<and>
     (\<exists>r. filter (connects (n_nid e) (mt_nid mt))
             (mentions (snd (add_mention t2 (snd (add_mention t1 g m1)) m2))) = [r] \<and>
          r_mention_count r = em_mention_count m1 + em_mention_count m2 \<and>
          r_context r = em_context m1 \<and>
          r_timestamp_start r = em_timestamp_start m1 \<and>
          r_timestamp_end r = em_timestamp_end m1 \<and>
          r_speaker r = em_speaker m1 \<and>
          r_sentiment r = em_sentiment m1)"
proof -
  let ?a = "n_nid e" and ?b = "mt_nid mt"
  let ?g1 = "snd (add_mention t1 g m1)"
  let ?g2 = "snd (add_mention t2 ?g1 m2)"
  let ?new = "mention_on_create t1 m1 ?a ?b"
  have none: "\<not> list_ex (connects ?a ?b) (mentions g)"
    using assms(6) by (simp add: mentioned_in_def)
  then have f0: "filter (connects ?a ?b) (mentions g) = []"
    by (auto simp: list_ex_iff filter_empty_conv)
  have a1: "add_mention t1 g m1 = (True, g\<lparr>mentions := mentions g @ [?new]\<rparr>)"
    using add_mention_single [OF assms(2,3), of t1] none by simp
  have new: "connects ?a ?b ?new" by (simp add: connects_def mention_on_create_def)
  have ex1: "list_ex (connects ?a ?b) (mentions ?g1)"
    using new by (simp add: a1 list_ex_iff)
  have m2e: "match_entity_id ?g1 (em_entity_id m2) = [e]"
    and m2m: "match_meeting_id ?g1 (em_meeting_id m2) = [mt]"
    using assms(2-5) by (simp_all add: match_after_add_mention)
  have a2: "add_mention t2 ?g1 m2 =
      (True, ?g1\<lparr>mentions := map (\<lambda>r. if connects ?a ?b r then mention_on_match t2 m2 r else r)
                                  (mentions ?g1)\<rparr>)"
    using add_mention_single [OF m2e m2m, of t2] ex1 by simp
  have "filter (connects ?a ?b) (mentions ?g2) =
      map (mention_on_match t2 m2) (filter (connects ?a ?b) (mentions ?g1))"
    by (simp add: a2 filter_map_if_same connects_on_match)
  also have "filter (connects ?a ?b) (mentions ?g1) = [?new]"
    using f0 new by (simp add: a1)
  finally have f2: "filter (connects ?a ?b) (mentions ?g2) = [mention_on_match t2 m2 ?new]"
    by simp
  have u1: "mention_unique ?g1" using assms(1) by (rule mention_unique_add_mention)
  then have u2: "mention_unique ?g2" by (rule mention_unique_add_mention)
  have r1: "fst (add_mention t1 g m1)" by (simp add: a1)
  have r2: "fst (add_mention t2 ?g1 m2)" using a2 by simp
  have props: "r_mention_count (mention_on_match t2 m2 ?new) =
        em_mention_count m1 + em_mention_count m2"
    "r_context (mention_on_match t2 m2 ?new) = em_context m1"
    "r_timestamp_start (mention_on_match t2 m2 ?new) = em_timestamp_start m1"
    "r_timestamp_end (mention_on_match t2 m2 ?new) = em_timestamp_end m1"
    "r_speaker (mention_on_match t2 m2 ?new) = em_speaker m1"
    "r_sentiment (mention_on_match t2 m2 ?new) = em_sentiment m1"
    by (simp_all add: mention_on_match_def mention_on_create_def)
  from r1 r2 u1 u2 f2 props show ?thesis by blast
qed

text \<open>
  C7. When no entity node has the id of the mention, or no meeting node has its meeting
  id, \<open>add_mention\<close> returns \<open>False\<close> and the graph is unchanged: no node and no edge
  is created.
\<close>

theorem add_mention_missing_endpoint:
  assumes "match_entity_id g (em_entity_id m) = [] \<or> match_meeting_id g (em_meeting_id m) = []"
  shows "add_mention now g m = (False, g)"
proof -
  have nil: "concat (map (\<lambda>e. []) xs) = []" for xs :: "entity_node list"
    by (induction xs) simp_all
  from assms show ?thesis
  proof
    assume "match_entity_id g (em_entity_id m) = []"
    then show ?thesis by (simp add: add_mention_def)
  next
    assume "match_meeting_id g (em_meeting_id m) = []"
    then show ?thesis by (simp add: add_mention_def nil)
  qed
qed

lemmas mention_defs = add_mention_def match_entity_id_def match_meeting_id_def connects_def
  mention_on_create_def mention_on_match_def mention_unique_def mentioned_in_def Let_def

theorem add_mention_accumulates_witness:
  "mention_unique ex_graph \<and>
   match_entity_id ex_graph ''e1'' = [ex_alice] \<and>
   match_meeting_id ex_graph ''m1'' = [ex_meeting 10 ''m1''] \<and>
   map (\<lambda>r. (r_mention_count r, r_context r))
     (mentions (snd (add_mention 9 (snd (add_mention 8 ex_graph (ex_mention ''e1'' ''m1'' ''first'')))
        (ex_mention ''e1'' ''m1'' ''second'')))) = [(2, ''first'')]"
  using add_mention_accumulates [of ex_graph "ex_mention ''e1'' ''m1'' ''first''" ex_alice
      "ex_meeting 10 ''m1''" "ex_mention ''e1'' ''m1'' ''second''" 8 9]
  by (simp add: ex_defs ex_mention_def mention_defs)

theorem add_mention_missing_endpoint_witness:
  "match_entity_id ex_graph ''nobody'' = [] \<and>
   add_mention 8 ex_graph (ex_mention ''nobody'' ''m1'' ''c'') = (False, ex_graph) \<and>
   match_meeting_id ex_graph ''m9'' = [] \<and>
   add_mention 8 ex_graph (ex_mention ''e1'' ''m9'' ''c'') = (False, ex_graph)"
  using add_mention_missing_endpoint [of ex_graph "ex_mention ''nobody'' ''m1'' ''c''" 8]
    add_mention_missing_endpoint [of ex_graph "ex_mention ''e1'' ''m9'' ''c''" 8]
  by (simp add: ex_defs ex_mention_def match_entity_id_def match_meeting_id_def)

section \<open>Properties of \<open>merge_entities\<close>\<close>

text \<open>
  C2, where the code departs from it. Alice and Bob are entities of one owner, Bob with
  two mentions. The merge of Bob into Alice raises the store's syntax error, as every
  call does: no mention is moved, Alice keeps her count 2 and her aliases, and Bob is
  still found.
\<close>

theorem merge_entities_raises:
  "match_owned ex_mentioned ''e1'' ''u1'' = [ex_alice] \<and>
   match_owned ex_mentioned ''e2'' ''u1'' = [ex_bob] \<and>
   merge_entities 50 ex_mentioned ''u1'' ''e1'' ''e2'' = Inl CypherSyntaxError \<and>
   get_entity ex_mentioned ''e2'' ''u1'' = Some ex_bob \<and>
   map_option (\<lambda>n. (n_mention_count n, n_aliases n)) (get_entity ex_mentioned ''e1'' ''u1'')
     = Some (2, [''al''])"
  by (simp add: merge_entities_def match_owned_def get_entity_def ex_mentioned_def ex_defs)

text \<open>
  C10, where the code departs from it. In \<open>ex_graph\<close> Bob has no mention. The merge of
  Bob into Alice does not return \<open>False\<close>: it raises the syntax error before any clause
  runs, so no \<open>UNWIND\<close> yields zero rows. The graph is unchanged, as the claim has it.
\<close>

theorem merge_entities_without_mentions_raises:
  "match_owned ex_graph ''e1'' ''u1'' = [ex_alice] \<and>
   match_owned ex_graph ''e2'' ''u1'' = [ex_bob] \<and>
   [r \<leftarrow> mentions ex_graph. r_src r = n_nid ex_bob] = [] \<and>
   merge_entities 50 ex_graph ''u1'' ''e1'' ''e2'' = Inl CypherSyntaxError \<and>
   merge_entities 50 ex_graph ''u1'' ''e1'' ''e2'' \<noteq> Inr (False, ex_graph)"
  by (simp add: merge_entities_def match_owned_def ex_defs)

section \<open>Properties of \<open>create_relationship\<close>\<close>

lemma create_relationship_single:
  assumes "match_entity_id g (er_from_entity_id rel) = [f]"
    and "match_entity_id g (er_to_entity_id rel) = [t]"
  shows "create_relationship apoc now g rel =
     (True, g\<lparr>relationships := relationships g @
        [\<lparr> x_src = n_nid f, x_dst = n_nid t,
            x_type = relationship_type_value (er_relationship_type rel),
            x_props = (if apoc then apoc_properties rel else fallback_properties now rel) \<rparr>]\<rparr>)"
  using assms by (simp add: create_relationship_def)

lemma match_after_create_relationship:
  "match_entity_id (snd (create_relationship apoc now g rel)) i = match_entity_id g i"
  by (simp add: create_relationship_def match_entity_id_def Let_def)

text \<open>
  C4 (as amended). \<open>create_relationship\<close> is not idempotent. When each endpoint id
  matches one entity node, a call returns \<open>True\<close> and appends one new edge of the given
  type between the two nodes, leaving the edges that were there as they are; after two
  calls for the same triple there are two more edges of that type between the nodes than
  before. This holds with and without APOC.
\<close>

theorem create_relationship_adds_edge:
  assumes "match_entity_id g (er_from_entity_id rel) = [f]"
    and "match_entity_id g (er_to_entity_id rel) = [t]"
  shows "fst (create_relationship apoc now g rel) \<and>
    (\<exists>x. relationships (snd (create_relationship apoc now g rel)) = relationships g @ [x] \<and>
         x_src x = n_nid f \<and> x_dst x = n_nid t \<and>
         x_type x = relationship_type_value (er_relationship_type rel)) \<and>
    fst (create_relationship apoc' now' (snd (create_relationship apoc now g rel)) rel) \<and>
    length (filter
        (between (n_nid f) (n_nid t) (relationship_type_value (er_relationship_type rel)))
        (relationships
          (snd (create_relationship apoc' now' (snd (create_relationship apoc now g rel)) rel)))) =
    length (filter
        (between (n_nid f) (n_nid t) (relationship_type_value (er_relationship_type rel)))
        (relationships g)) + 2"
proof -
  let ?g1 = "snd (create_relationship apoc now g rel)"
  have c1: "create_relationship apoc now g rel =
     (True, g\<lparr>relationships := relationships g @
        [\<lparr> x_src = n_nid f, x_dst = n_nid t,
            x_type = relationship_type_value (er_relationship_type rel),
            x_props = (if apoc then apoc_properties rel else fallback_properties now rel) \<rparr>]\<rparr>)"
    using assms by (rule create_relationship_single)
  have "match_entity_id ?g1 (er_from_entity_id rel) = [f]"
    and "match_entity_id ?g1 (er_to_entity_id rel) = [t]"
    using assms by (simp_all add: match_after_create_relationship)
  then have c2: "create_relationship apoc' now' ?g1 rel =
     (True, ?g1\<lparr>relationships := relationships ?g1 @
        [\<lparr> x_src = n_nid f, x_dst = n_nid t,
            x_type = relationship_type_value (er_relationship_type rel),
            x_props = (if apoc' then apoc_properties rel else fallback_properties now' rel) \<rparr>]\<rparr>)"
    by (rule create_relationship_single)
  show ?thesis
    unfolding c2 unfolding c1 by (simp add: between_def)
qed

lemmas rel_defs = create_relationship_def match_entity_id_def between_def Let_def

theorem create_relationship_adds_edge_witness:
  "match_entity_id ex_graph ''e1'' = [ex_alice] \<and> match_entity_id ex_graph ''e2'' = [ex_bob] \<and>
   map (\<lambda>x. (x_src x, x_dst x, x_type x, x_props x ''source''))
     (relationships (snd (create_relationship False 61
        (snd (create_relationship True 60 ex_graph (ex_rel ''e1'' ''e2'' COLLABORATES_WITH ''ai'')))
        (ex_rel ''e1'' ''e2'' COLLABORATES_WITH ''ai'')))) =
     [(0, 1, ''COLLABORATES_WITH'', Some (PStr ''ai'')),
      (0, 1, ''COLLABORATES_WITH'', Some (PStr ''ai''))]"
  using create_relationship_adds_edge [of ex_graph "ex_rel ''e1'' ''e2'' COLLABORATES_WITH ''ai''"
      ex_alice ex_bob True 60 False 61]
  by (simp add: ex_defs ex_rel_def rel_defs apoc_properties_def fallback_properties_def)

text \<open>
  C4 as stated fails: two calls for the same (from, to, type) leave two parallel edges.
\<close>

theorem create_relationship_twice_counterexample:
  "length (filter (between 0 1 ''COLLABORATES_WITH'')
     (relationships (snd (create_relationship True 61
        (snd (create_relationship True 60 ex_graph (ex_rel ''e1'' ''e2'' COLLABORATES_WITH ''ai'')))
        (ex_rel ''e1'' ''e2'' COLLABORATES_WITH ''ai''))))) = 2 \<and>
   length (filter (between 0 1 ''COLLABORATES_WITH'')
     (relationships (snd (create_relationship False 61
        (snd (create_relationship False 60 ex_graph (ex_rel ''e1'' ''e2'' COLLABORATES_WITH ''ai'')))
        (ex_rel ''e1'' ''e2'' COLLABORATES_WITH ''ai''))))) = 2"
  by (simp add: ex_defs ex_rel_def rel_defs)

text \<open>
  C3, at an input where the code departs from it. The table allows no \<open>USES\<close> edge from
  an organization to a person, and \<open>create_relationship\<close> creates one and returns
  \<open>True\<close>, with APOC and without: no method consults \<open>VALID_RELATIONSHIPS\<close>.
\<close>

theorem create_relationship_unchecked:
  "map n_label (match_entity_id ex_graph ''e3'') = [''Organization''] \<and>
   map n_label (match_entity_id ex_graph ''e1'') = [''Person''] \<and>
   ''USES'' \<notin> set (allowed_types ''Organization'' ''Person'') \<and>
   fst (create_relationship True 60 ex_graph (ex_rel ''e3'' ''e1'' USES ''ai'')) = True \<and>
   map (\<lambda>x. (x_src x, x_dst x, x_type x))
     (relationships (snd (create_relationship True 60 ex_graph (ex_rel ''e3'' ''e1'' USES ''ai''))))
     = [(2, 0, ''USES'')] \<and>
   fst (create_relationship False 60 ex_graph (ex_rel ''e3'' ''e1'' USES ''ai'')) = True \<and>
   map (\<lambda>x. (x_src x, x_dst x, x_type x))
     (relationships (snd (create_relationship False 60 ex_graph (ex_rel ''e3'' ''e1'' USES ''ai''))))
     = [(2, 0, ''USES'')]"
  by (simp add: ex_defs ex_rel_def rel_defs allowed_types_def VALID_RELATIONSHIPS_def)

section \<open>Properties of \<open>infer_collaborations\<close>\<close>

lemma refresh_edges_simp:
  "refresh_edges now (a, b, c) xs =
     (if list_ex (between a b ''COLLABORATES_WITH'') xs
      then map (\<lambda>x. if between a b ''COLLABORATES_WITH'' x then collab_on_match now c x else x) xs
      else xs @ [collab_on_create now a b c])"
  by (simp add: refresh_edges_def)

lemma fst_merge_collaboration:
  "fst (merge_collaboration now row (xs, n)) = refresh_edges now row xs"
  by (cases row) (simp add: refresh_edges_def)

lemma fst_fold_merge_collaboration:
  "fst (fold (merge_collaboration now) rows (xs, n)) = fold (refresh_edges now) rows xs"
proof (induction rows arbitrary: xs n)
  case Nil
  then show ?case by simp
next
  case (Cons row rows)
  obtain ys m where st: "merge_collaboration now row (xs, n) = (ys, m)"
    by (cases "merge_collaboration now row (xs, n)")
  then have "ys = refresh_edges now row xs"
    using fst_merge_collaboration [of now row xs n] by simp
  with Cons.IH [of ys m] st show ?case by simp
qed

lemma relationships_infer:
  "relationships (snd (infer_collaborations now g user_id k)) =
     fold (refresh_edges now) (collaboration_rows g user_id k) (relationships g)"
proof -
  obtain xs n where st: "fold (merge_collaboration now) (collaboration_rows g user_id k)
      (relationships g, 0) = (xs, n)"
    by (cases "fold (merge_collaboration now) (collaboration_rows g user_id k) (relationships g, 0)")
  then have "xs = fold (refresh_edges now) (collaboration_rows g user_id k) (relationships g)"
    using fst_fold_merge_collaboration [of now "collaboration_rows g user_id k" "relationships g" 0]
    by simp
  with st show ?thesis by (simp add: infer_collaborations_def)
qed

lemma infer_keeps_nodes:
  "entities (snd (infer_collaborations now g user_id k)) = entities g"
  "meetings (snd (infer_collaborations now g user_id k)) = meetings g"
  "mentions (snd (infer_collaborations now g user_id k)) = mentions g"
  by (simp_all add: infer_collaborations_def split: prod.splits)

lemma shared_meetings_after_infer:
  "shared_meetings (snd (infer_collaborations now g user_id k)) = shared_meetings g"
  by (simp add: shared_meetings_def mentioned_in_def infer_keeps_nodes fun_eq_iff)

lemma rows_after_infer:
  "collaboration_rows (snd (infer_collaborations now g user_id k)) u k' = collaboration_rows g u k'"
  by (simp add: collaboration_rows_def meeting_count_def shared_meetings_after_infer
      infer_keeps_nodes cong: if_cong)

lemma between_on_match: "between a b ty (collab_on_match now c x) = between a b ty x"
  by (simp add: between_def collab_on_match_def)

lemma between_on_create:
  "between a' b' ''COLLABORATES_WITH'' (collab_on_create now a b c) \<longleftrightarrow> a' = a \<and> b' = b"
  by (auto simp: between_def collab_on_create_def)

lemma filter_refresh_same:
  "filter (between a b ''COLLABORATES_WITH'') (refresh_edges now (a, b, c) xs) =
     (if filter (between a b ''COLLABORATES_WITH'') xs = []
      then [collab_on_create now a b c]
      else map (collab_on_match now c) (filter (between a b ''COLLABORATES_WITH'') xs))"
proof (cases "list_ex (between a b ''COLLABORATES_WITH'') xs")
  case True
  then have "filter (between a b ''COLLABORATES_WITH'') xs \<noteq> []"
    by (auto simp: list_ex_iff filter_empty_conv)
  with True show ?thesis
    by (simp add: refresh_edges_simp filter_map_if_same between_on_match)
next
  case False
  then have "filter (between a b ''COLLABORATES_WITH'') xs = []"
    by (auto simp: list_ex_iff filter_empty_conv)
  with False show ?thesis
    by (simp add: refresh_edges_simp between_on_create)
qed

lemma filter_map_if_other:
  assumes "\<And>x. P (f x) = P x" and "\<And>x. Q x \<Longrightarrow> \<not> P x"
  shows "filter P (map (\<lambda>x. if Q x then f x else x) xs) = filter P xs"
  using assms by (induction xs) auto

lemma filter_refresh_other:
  assumes "(a', b') \<noteq> (a, b)"
  shows "filter (between a' b' ''COLLABORATES_WITH'') (refresh_edges now (a, b, c) xs) =
     filter (between a' b' ''COLLABORATES_WITH'') xs"
proof (cases "list_ex (between a b ''COLLABORATES_WITH'') xs")
  case True
  have "\<And>x. between a b ''COLLABORATES_WITH'' x \<Longrightarrow> \<not> between a' b' ''COLLABORATES_WITH'' x"
    using assms by (auto simp: between_def)
  with True show ?thesis
    by (simp add: refresh_edges_simp filter_map_if_other between_on_match)
next
  case False
  with assms show ?thesis
    by (auto simp: refresh_edges_simp between_on_create)
qed

lemma fold_refresh_other:
  assumes "\<forall>row \<in> set rows. (fst row, fst (snd row)) \<noteq> (a, b)"
  shows "filter (between a b ''COLLABORATES_WITH'') (fold (refresh_edges now) rows xs) =
     filter (between a b ''COLLABORATES_WITH'') xs"
  using assms
proof (induction rows arbitrary: xs)
  case Nil
  then show ?case by simp
next
  case (Cons row rows)
  obtain a' b' c' where row: "row = (a', b', c')" by (cases row)
  with Cons.prems have "(a, b) \<noteq> (a', b')" by auto
  then have "filter (between a b ''COLLABORATES_WITH'') (refresh_edges now row xs) =
      filter (between a b ''COLLABORATES_WITH'') xs"
    unfolding row by (rule filter_refresh_other)
  with Cons show ?case by simp
qed


lemma refresh_strength:
  "filter (between a b ''COLLABORATES_WITH'') (refresh_edges now (a, b, c) xs) \<noteq> [] \<and>
   (\<forall>x \<in> set (filter (between a b ''COLLABORATES_WITH'') (refresh_edges now (a, b, c) xs)).
      x_props x ''strength'' = Some (PInt c))"
  unfolding filter_refresh_same
  by (auto simp: collab_on_create_def collab_on_match_def)

lemma fold_refresh_strength:
  assumes "(a, b, c) \<in> set rows"
    and "\<forall>row \<in> set rows. fst row = a \<and> fst (snd row) = b \<longrightarrow> snd (snd row) = c"
  shows "filter (between a b ''COLLABORATES_WITH'') (fold (refresh_edges now) rows xs) \<noteq> [] \<and>
    (\<forall>x \<in> set (filter (between a b ''COLLABORATES_WITH'') (fold (refresh_edges now) rows xs)).
       x_props x ''strength'' = Some (PInt c))"
  using assms
proof (induction rows arbitrary: xs)
  case Nil
  then show ?case by simp
next
  case (Cons row rows)
  show ?case
  proof (cases "(a, b, c) \<in> set rows")
    case True
    with Cons.IH [of "refresh_edges now row xs"] Cons.prems(2) show ?thesis by simp
  next
    case False
    with Cons.prems(1) have row: "row = (a, b, c)" by simp
    have "\<forall>r \<in> set rows. (fst r, fst (snd r)) \<noteq> (a, b)"
    proof
      fix r assume r: "r \<in> set rows"
      show "(fst r, fst (snd r)) \<noteq> (a, b)"
      proof
        assume "(fst r, fst (snd r)) = (a, b)"
        with Cons.prems(2) r have "r = (a, b, c)" by (cases r) auto
        with r False show False by simp
      qed
    qed
    then have "filter (between a b ''COLLABORATES_WITH'')
          (fold (refresh_edges now) rows (refresh_edges now (a, b, c) xs)) =
        filter (between a b ''COLLABORATES_WITH'') (refresh_edges now (a, b, c) xs)"
      by (rule fold_refresh_other)
    with refresh_strength [of a b now c xs] row show ?thesis by simp
  qed
qed

lemma refresh_length_same:
  "length (filter (between a b ''COLLABORATES_WITH'') (refresh_edges now (a, b, c) xs)) =
     max 1 (length (filter (between a b ''COLLABORATES_WITH'') xs))"
  unfolding filter_refresh_same
  by (cases "filter (between a b ''COLLABORATES_WITH'') xs") simp_all

lemma fold_refresh_length:
  assumes "\<exists>c. (a, b, c) \<in> set rows"
  shows "length (filter (between a b ''COLLABORATES_WITH'') (fold (refresh_edges now) rows xs)) =
     max 1 (length (filter (between a b ''COLLABORATES_WITH'') xs))"
  using assms
proof (induction rows arbitrary: xs)
  case Nil
  then show ?case by simp
next
  case (Cons row rows)
  obtain a' b' c' where row: "row = (a', b', c')" by (cases row)
  let ?L = "\<lambda>zs. length (filter (between a b ''COLLABORATES_WITH'') zs)"
  let ?ys = "refresh_edges now (a', b', c') xs"
  have fold_eq: "fold (refresh_edges now) (row # rows) xs = fold (refresh_edges now) rows ?ys"
    by (simp add: row)
  show ?case
  proof (cases "a' = a \<and> b' = b")
    case True
    then have ys: "?L ?ys = max 1 (?L xs)"
      using refresh_length_same [of a b now c' xs] by simp
    show ?thesis
    proof (cases "\<exists>c. (a, b, c) \<in> set rows")
      case True
      from Cons.IH [OF this, of ?ys] ys show ?thesis by (simp add: row)
    next
      case False
      then have "\<forall>r \<in> set rows. (fst r, fst (snd r)) \<noteq> (a, b)" by force
      from fold_refresh_other [OF this, of now ?ys] ys show ?thesis by (simp add: row)
    qed
  next
    case False
    then have ne: "(a, b) \<noteq> (a', b')" by auto
    have ys: "?L ?ys = ?L xs"
      using filter_refresh_other [OF ne, of now c' xs] by simp
    from False Cons.prems row have "\<exists>c. (a, b, c) \<in> set rows" by auto
    from Cons.IH [OF this, of ?ys] ys show ?thesis by (simp add: row)
  qed
qed

lemma source_on_match: "x_props (collab_on_match now c x) ''source'' = x_props x ''source''"
  by (simp add: collab_on_match_def)

lemma refresh_source:
  assumes "\<forall>x \<in> set (filter (between a b ''COLLABORATES_WITH'') xs).
             x_props x ''source'' = Some (PStr ''inferred'')"
  shows "\<forall>x \<in> set (filter (between a b ''COLLABORATES_WITH'') (refresh_edges now (a', b', c') xs)).
             x_props x ''source'' = Some (PStr ''inferred'')"
proof (cases "a' = a \<and> b' = b")
  case True
  show ?thesis
  proof (cases "filter (between a b ''COLLABORATES_WITH'') xs = []")
    case True
    with \<open>a' = a \<and> b' = b\<close> filter_refresh_same [of a b now c' xs]
    show ?thesis by (simp add: collab_on_create_def)
  next
    case False
    with \<open>a' = a \<and> b' = b\<close> filter_refresh_same [of a b now c' xs]
    have "filter (between a b ''COLLABORATES_WITH'') (refresh_edges now (a', b', c') xs) =
        map (collab_on_match now c') (filter (between a b ''COLLABORATES_WITH'') xs)"
      by simp
    with assms show ?thesis by (simp add: source_on_match)
  qed
next
  case False
  then have "(a, b) \<noteq> (a', b')" by auto
  from filter_refresh_other [OF this, of now c' xs] assms show ?thesis by simp
qed

lemma fold_refresh_source:
  assumes "\<forall>x \<in> set (filter (between a b ''COLLABORATES_WITH'') xs).
             x_props x ''source'' = Some (PStr ''inferred'')"
  shows "\<forall>x \<in> set (filter (between a b ''COLLABORATES_WITH'') (fold (refresh_edges now) rows xs)).
             x_props x ''source'' = Some (PStr ''inferred'')"
  using assms
proof (induction rows arbitrary: xs)
  case Nil
  then show ?case by simp
next
  case (Cons row rows)
  obtain a' b' c' where row: "row = (a', b', c')" by (cases row)
  from Cons.prems have "\<forall>x \<in> set (filter (between a b ''COLLABORATES_WITH'')
        (refresh_edges now (a', b', c') xs)). x_props x ''source'' = Some (PStr ''inferred'')"
    by (rule refresh_source)
  from Cons.IH [OF this] row show ?case by simp
qed

lemma same_but_updated_at_refl: "same_but_updated_at x x"
  by (simp add: same_but_updated_at_def)

lemma same_but_updated_at_trans:
  "same_but_updated_at x y \<Longrightarrow> same_but_updated_at y z \<Longrightarrow> same_but_updated_at x z"
  by (simp add: same_but_updated_at_def)

lemma same_between:
  "same_but_updated_at x y \<Longrightarrow> between a b ty x = between a b ty y"
  by (simp add: same_but_updated_at_def between_def)

lemma same_strength:
  assumes "same_but_updated_at x y"
  shows "x_props x ''strength'' = x_props y ''strength''"
proof -
  from assms have "((x_props x)(''updated_at'' := None)) ''strength'' =
      ((x_props y)(''updated_at'' := None)) ''strength''"
    by (simp add: same_but_updated_at_def)
  then show ?thesis by simp
qed

lemma same_on_match:
  assumes "x_props x ''strength'' = Some (PInt c)"
  shows "same_but_updated_at x (collab_on_match now c x)"
  using assms by (auto simp: same_but_updated_at_def collab_on_match_def fun_eq_iff)

lemma refresh_same:
  assumes "filter (between a b ''COLLABORATES_WITH'') xs \<noteq> []"
    and "\<forall>x \<in> set (filter (between a b ''COLLABORATES_WITH'') xs).
           x_props x ''strength'' = Some (PInt c)"
  shows "list_all2 same_but_updated_at xs (refresh_edges now (a, b, c) xs)"
proof -
  from assms(1) have "list_ex (between a b ''COLLABORATES_WITH'') xs"
    by (auto simp: list_ex_iff filter_empty_conv)
  then have "refresh_edges now (a, b, c) xs =
      map (\<lambda>x. if between a b ''COLLABORATES_WITH'' x then collab_on_match now c x else x) xs"
    by (simp add: refresh_edges_simp)
  moreover have "\<forall>x \<in> set xs. same_but_updated_at x
      (if between a b ''COLLABORATES_WITH'' x then collab_on_match now c x else x)"
    using assms(2) by (auto simp: same_on_match same_but_updated_at_refl)
  ultimately show ?thesis
    by (simp add: list_all2_map2 list_all2_same)
qed

lemma same_filter:
  assumes "list_all2 same_but_updated_at xs ys"
  shows "list_all2 same_but_updated_at (filter (between a b ty) xs) (filter (between a b ty) ys)"
  using assms
proof (induction xs ys rule: list_all2_induct)
  case Nil
  then show ?case by simp
next
  case (Cons x xs y ys)
  from Cons.hyps(1) have "between a b ty x = between a b ty y" by (rule same_between)
  with Cons.hyps(1) Cons.IH show ?case by (cases "between a b ty y") simp_all
qed

lemma same_all_strength:
  assumes "list_all2 same_but_updated_at xs ys"
    and "\<forall>x \<in> set xs. x_props x ''strength'' = s"
  shows "\<forall>y \<in> set ys. x_props y ''strength'' = s"
  using assms
proof (induction xs ys rule: list_all2_induct)
  case Nil
  then show ?case by simp
next
  case (Cons x xs y ys)
  from Cons.hyps(1) have "x_props x ''strength'' = x_props y ''strength''" by (rule same_strength)
  with Cons.prems Cons.IH show ?case by simp
qed

lemma same_filter_strength:
  assumes "list_all2 same_but_updated_at xs ys"
    and "filter (between a b ty) xs \<noteq> []"
    and "\<forall>x \<in> set (filter (between a b ty) xs). x_props x ''strength'' = s"
  shows "filter (between a b ty) ys \<noteq> [] \<and>
    (\<forall>y \<in> set (filter (between a b ty) ys). x_props y ''strength'' = s)"
proof -
  have f: "list_all2 same_but_updated_at (filter (between a b ty) xs) (filter (between a b ty) ys)"
    using assms(1) by (rule same_filter)
  then have "length (filter (between a b ty) xs) = length (filter (between a b ty) ys)"
    by (rule list_all2_lengthD)
  with assms(2) have "filter (between a b ty) ys \<noteq> []" by auto
  moreover from f assms(3)
  have "\<forall>y \<in> set (filter (between a b ty) ys). x_props y ''strength'' = s"
    by (rule same_all_strength)
  ultimately show ?thesis by simp
qed

lemma fold_refresh_same:
  assumes "\<forall>row \<in> set rows.
      filter (between (fst row) (fst (snd row)) ''COLLABORATES_WITH'') xs \<noteq> [] \<and>
      (\<forall>x \<in> set (filter (between (fst row) (fst (snd row)) ''COLLABORATES_WITH'') xs).
         x_props x ''strength'' = Some (PInt (snd (snd row))))"
  shows "list_all2 same_but_updated_at xs (fold (refresh_edges now) rows xs)"
  using assms
proof (induction rows arbitrary: xs)
  case Nil
  then show ?case by (simp add: list_all2_same same_but_updated_at_refl)
next
  case (Cons row rows)
  obtain a b c where row: "row = (a, b, c)" by (cases row)
  let ?ys = "refresh_edges now (a, b, c) xs"
  have step: "list_all2 same_but_updated_at xs ?ys"
    using Cons.prems row by (intro refresh_same) auto
  have "\<forall>r \<in> set rows.
      filter (between (fst r) (fst (snd r)) ''COLLABORATES_WITH'') ?ys \<noteq> [] \<and>
      (\<forall>x \<in> set (filter (between (fst r) (fst (snd r)) ''COLLABORATES_WITH'') ?ys).
         x_props x ''strength'' = Some (PInt (snd (snd r))))"
  proof
    fix r assume "r \<in> set rows"
    with Cons.prems have
      "filter (between (fst r) (fst (snd r)) ''COLLABORATES_WITH'') xs \<noteq> []"
      "\<forall>x \<in> set (filter (between (fst r) (fst (snd r)) ''COLLABORATES_WITH'') xs).
         x_props x ''strength'' = Some (PInt (snd (snd r)))"
      by auto
    with step show "filter (between (fst r) (fst (snd r)) ''COLLABORATES_WITH'') ?ys \<noteq> [] \<and>
      (\<forall>x \<in> set (filter (between (fst r) (fst (snd r)) ''COLLABORATES_WITH'') ?ys).
         x_props x ''strength'' = Some (PInt (snd (snd r))))"
      by (rule same_filter_strength)
  qed
  from Cons.IH [OF this] have "list_all2 same_but_updated_at ?ys (fold (refresh_edges now) rows ?ys)" .
  with step have "list_all2 same_but_updated_at xs (fold (refresh_edges now) rows ?ys)"
    by (rule list_all2_trans [rotated 1]) (rule same_but_updated_at_trans)
  with row show ?case by simp
qed

lemma rows_count:
  assumes "row \<in> set (collaboration_rows g user_id k)"
  shows "snd (snd row) = meeting_count g (fst row) (fst (snd row))"
  using assms by (auto simp: collaboration_rows_def split: if_splits)

lemma in_concat_map: "x \<in> set xs \<Longrightarrow> y \<in> set (f x) \<Longrightarrow> y \<in> set (concat (map f xs))"
  by auto

lemma rows_member:
  assumes "p1 \<in> set (entities g)" and "p2 \<in> set (entities g)"
    and "is_person p1" and "is_person p2"
    and "n_user_id p1 = user_id" and "n_user_id p2 = user_id"
    and "n_id p1 < n_id p2"
    and "k \<le> meeting_count g (n_nid p1) (n_nid p2)"
    and "1 \<le> meeting_count g (n_nid p1) (n_nid p2)"
  shows "(n_nid p1, n_nid p2, meeting_count g (n_nid p1) (n_nid p2))
           \<in> set (collaboration_rows g user_id k)"
proof -
  from assms(9) have "shared_meetings g (n_nid p1) (n_nid p2) \<noteq> []"
    by (auto simp: meeting_count_def)
  then show ?thesis
    unfolding collaboration_rows_def
    apply (intro in_concat_map [OF assms(1)])
    apply (simp only: assms(3,5) simp_thms if_True)
    apply (intro in_concat_map [OF assms(2)])
    using assms(4,6,7,8) apply simp
    done
qed

text \<open>
  C8 (as amended). Let \<open>p1\<close> and \<open>p2\<close> be persons of the owner with \<open>p1.id < p2.id\<close>
  whose count of shared meetings is at least the threshold and at least 1. After a run at
  least one \<open>COLLABORATES_WITH\<close> edge leads from \<open>p1\<close> to \<open>p2\<close> and every such edge has
  the current count as its \<open>strength\<close>. The run adds no edge when one was there (their
  number stays); when none was there it creates exactly one, with \<open>source\<close> inferred. A
  run changes no mention, and the run after it leaves every edge of the graph as it is,
  \<open>updated_at\<close> apart.
\<close>

theorem infer_collaborations_refresh:
  assumes "p1 \<in> set (entities g)" and "p2 \<in> set (entities g)"
    and "is_person p1" and "is_person p2"
    and "n_user_id p1 = user_id" and "n_user_id p2 = user_id"
    and "n_id p1 < n_id p2"
    and "k \<le> meeting_count g (n_nid p1) (n_nid p2)"
    and "1 \<le> meeting_count g (n_nid p1) (n_nid p2)"
  shows "let g1 = snd (infer_collaborations now g user_id k);
             g2 = snd (infer_collaborations now' g1 user_id k);
             a = n_nid p1; b = n_nid p2
         in collaborations g1 a b \<noteq> [] \<and>
            (\<forall>x \<in> set (collaborations g1 a b).
               x_props x ''strength'' = Some (PInt (meeting_count g a b))) \<and>
            length (collaborations g1 a b) = max 1 (length (collaborations g a b)) \<and>
            (collaborations g a b = [] \<longrightarrow>
               (\<exists>x. collaborations g1 a b = [x] \<and>
                    x_props x ''source'' = Some (PStr ''inferred''))) \<and>
            meeting_count g1 a b = meeting_count g a b \<and>
            list_all2 same_but_updated_at (relationships g1) (relationships g2)"
proof -
  define g1 where "g1 = snd (infer_collaborations now g user_id k)"
  define g2 where "g2 = snd (infer_collaborations now' g1 user_id k)"
  define a where "a = n_nid p1"
  define b where "b = n_nid p2"
  define rows where "rows = collaboration_rows g user_id k"
  define c where "c = meeting_count g a b"
  have rels1: "relationships g1 = fold (refresh_edges now) rows (relationships g)"
    by (simp add: g1_def rows_def relationships_infer)
  have rels2: "relationships g2 = fold (refresh_edges now') rows (relationships g1)"
    by (simp add: g2_def rows_def relationships_infer g1_def rows_after_infer)
  have cnt: "\<forall>row \<in> set rows. snd (snd row) = meeting_count g (fst row) (fst (snd row))"
    by (auto simp: rows_def dest: rows_count)
  have mem: "(a, b, c) \<in> set rows"
    unfolding a_def b_def c_def rows_def using assms by (rule rows_member)
  have fun_c: "\<forall>row \<in> set rows. fst row = a \<and> fst (snd row) = b \<longrightarrow> snd (snd row) = c"
    using cnt by (simp add: c_def)
  have strength: "collaborations g1 a b \<noteq> [] \<and>
      (\<forall>x \<in> set (collaborations g1 a b). x_props x ''strength'' = Some (PInt c))"
    unfolding collaborations_def rels1 using mem fun_c by (rule fold_refresh_strength)
  have len: "length (collaborations g1 a b) = max 1 (length (collaborations g a b))"
    unfolding collaborations_def rels1 using mem by (intro fold_refresh_length) blast
  have src: "\<exists>x. collaborations g1 a b = [x] \<and> x_props x ''source'' = Some (PStr ''inferred'')"
    if none: "collaborations g a b = []"
  proof -
    from none have "\<forall>x \<in> set (filter (between a b ''COLLABORATES_WITH'') (relationships g)).
        x_props x ''source'' = Some (PStr ''inferred'')"
      by (simp add: collaborations_def)
    then have all: "\<forall>x \<in> set (collaborations g1 a b).
        x_props x ''source'' = Some (PStr ''inferred'')"
      unfolding collaborations_def rels1 by (rule fold_refresh_source)
    from len none have "length (collaborations g1 a b) = 1" by simp
    then obtain x where "collaborations g1 a b = [x]"
      by (cases "collaborations g1 a b") auto
    with all show ?thesis by simp
  qed
  have mc: "meeting_count g1 a b = meeting_count g a b"
    by (simp add: meeting_count_def g1_def shared_meetings_after_infer)
  have inv: "\<forall>row \<in> set rows.
      filter (between (fst row) (fst (snd row)) ''COLLABORATES_WITH'') (relationships g1) \<noteq> [] \<and>
      (\<forall>x \<in> set (filter (between (fst row) (fst (snd row)) ''COLLABORATES_WITH'')
                     (relationships g1)).
         x_props x ''strength'' = Some (PInt (snd (snd row))))"
  proof
    fix row assume row: "row \<in> set rows"
    obtain a' b' c' where r: "row = (a', b', c')" by (cases row)
    have "\<forall>r \<in> set rows. fst r = a' \<and> fst (snd r) = b' \<longrightarrow> snd (snd r) = c'"
      using cnt row r by auto
    with row r have "filter (between a' b' ''COLLABORATES_WITH'')
          (fold (refresh_edges now) rows (relationships g)) \<noteq> [] \<and>
        (\<forall>x \<in> set (filter (between a' b' ''COLLABORATES_WITH'')
                       (fold (refresh_edges now) rows (relationships g))).
           x_props x ''strength'' = Some (PInt c'))"
      by (intro fold_refresh_strength) simp_all
    then show "filter (between (fst row) (fst (snd row)) ''COLLABORATES_WITH'')
          (relationships g1) \<noteq> [] \<and>
      (\<forall>x \<in> set (filter (between (fst row) (fst (snd row)) ''COLLABORATES_WITH'')
                     (relationships g1)).
         x_props x ''strength'' = Some (PInt (snd (snd row))))"
      by (simp add: r rels1)
  qed
  have idem: "list_all2 same_but_updated_at (relationships g1) (relationships g2)"
    unfolding rels2 using inv by (rule fold_refresh_same)
  from strength len src mc idem show ?thesis
    unfolding Let_def g1_def [symmetric] g2_def [symmetric] a_def [symmetric] b_def [symmetric]
      c_def [symmetric]
    by blast
qed

lemmas infer_defs = infer_collaborations_def collaboration_rows_def meeting_count_def
  shared_meetings_def mentioned_in_def connects_def is_person_def
  collab_on_create_def collab_on_match_def collaborations_def default_min_co_occurrences_def

theorem infer_collaborations_refresh_witness:
  "ex_alice \<in> set (entities ex_shared) \<and> ex_bob \<in> set (entities ex_shared) \<and>
   is_person ex_alice \<and> is_person ex_bob \<and> n_id ex_alice < n_id ex_bob \<and>
   meeting_count ex_shared (n_nid ex_alice) (n_nid ex_bob) = 3 \<and>
   map (\<lambda>x. (x_src x, x_dst x, x_type x, x_props x ''strength'', x_props x ''source''))
     (relationships (snd (infer_collaborations 70 ex_shared ''u1'' default_min_co_occurrences))) =
     [(0, 1, ''COLLABORATES_WITH'', Some (PInt 3), Some (PStr ''inferred''))] \<and>
   map (\<lambda>x. (x_src x, x_dst x, x_type x, x_props x ''strength'', x_props x ''source''))
     (relationships (snd (infer_collaborations 71
        (snd (infer_collaborations 70 ex_shared ''u1'' default_min_co_occurrences))
        ''u1'' default_min_co_occurrences))) =
     [(0, 1, ''COLLABORATES_WITH'', Some (PInt 3), Some (PStr ''inferred''))]"
  using infer_collaborations_refresh [of ex_alice ex_shared ex_bob "''u1''"
      default_min_co_occurrences 70 71]
  by (simp add: ex_defs ex_shared_def ex_edge_def infer_defs rel_defs)

text \<open>
  C8 as stated fails. Alice and Bob share three meetings. With an edge from Alice to Bob
  that \<open>create_relationship\<close> made with source \<open>user\<close>, the run sets the strength of that
  edge and its source stays \<open>user\<close>. With such an edge from Bob to Alice, the run adds
  one from Alice to Bob: the pair then has two \<open>COLLABORATES_WITH\<close> edges.
\<close>

theorem infer_collaborations_counterexample:
  "meeting_count ex_shared 0 1 = 3 \<and>
   map (\<lambda>x. (x_src x, x_dst x, x_type x, x_props x ''strength'', x_props x ''source''))
     (relationships (snd (infer_collaborations 70
        (snd (create_relationship True 60 ex_shared (ex_rel ''e1'' ''e2'' COLLABORATES_WITH ''user'')))
        ''u1'' 3))) =
     [(0, 1, ''COLLABORATES_WITH'', Some (PInt 3), Some (PStr ''user''))] \<and>
   map (\<lambda>x. (x_src x, x_dst x, x_type x, x_props x ''source''))
     (relationships (snd (infer_collaborations 70
        (snd (create_relationship True 60 ex_shared (ex_rel ''e2'' ''e1'' COLLABORATES_WITH ''user'')))
        ''u1'' 3))) =
     [(1, 0, ''COLLABORATES_WITH'', Some (PStr ''user'')),
      (0, 1, ''COLLABORATES_WITH'', Some (PStr ''inferred''))]"
  by (simp add: ex_defs ex_shared_def ex_edge_def ex_rel_def infer_defs rel_defs
      apoc_properties_def)

section \<open>Properties of \<open>extract_entities\<close>\<close>

text \<open>
  C9. With an API key and a result of the extraction call, \<open>extract_entities\<close> returns
  the candidates whose confidence is at least the minimum and no other: a candidate below
  the minimum is not in the returned list, one at or above it is, and nothing is returned
  that is no candidate. The minimum is 0.7 when \<open>MIN_CONFIDENCE\<close> is not set.
\<close>

theorem extract_entities_confidence_filter:
  assumes "OPENAI_API_KEY env \<noteq> None" and "OPENAI_API_KEY env \<noteq> Some []"
    and "min_confidence float env = Inr t"
  shows "\<exists>out. extract_entities lower float env (Some extractions) = Inr out \<and>
     set out \<subseteq> set (candidates lower extractions) \<and>
     (\<forall>e \<in> set (candidates lower extractions).
        (ge_confidence e < t \<longrightarrow> e \<notin> set out) \<and>
        (t \<le> ge_confidence e \<longrightarrow> e \<in> set out)) \<and>
     (MIN_CONFIDENCE env = None \<longrightarrow> t = 0.7)"
proof -
  have out: "extract_entities lower float env (Some extractions) =
      Inr [e \<leftarrow> candidates lower extractions. t \<le> ge_confidence e]"
    using assms by (auto simp: extract_entities_def)
  have dflt: "MIN_CONFIDENCE env = None \<longrightarrow> t = 0.7"
    using assms(3) by (auto simp: min_confidence_def)
  from out dflt show ?thesis by auto
qed

theorem extract_entities_confidence_filter_witness:
  "min_confidence ex_float \<lparr>OPENAI_API_KEY = Some ''k'', MIN_CONFIDENCE = None\<rparr> = Inr 0.7 \<and>
   min_confidence ex_float \<lparr>OPENAI_API_KEY = Some ''k'', MIN_CONFIDENCE = Some ''0.9''\<rparr>
     = Inr 0.9 \<and>
   map (\<lambda>e. (ge_value e, ge_confidence e)) (candidates (\<lambda>s. s) ex_extractions) =
     [(''Dana'', 1), (''Omer'', 0.8)] \<and>
   map_sum id (map ge_value)
     (extract_entities (\<lambda>s. s) ex_float \<lparr>OPENAI_API_KEY = Some ''k'', MIN_CONFIDENCE = None\<rparr>
        (Some ex_extractions)) = Inr [''Dana'', ''Omer''] \<and>
   map_sum id (map ge_value)
     (extract_entities (\<lambda>s. s) ex_float
        \<lparr>OPENAI_API_KEY = Some ''k'', MIN_CONFIDENCE = Some ''0.9''\<rparr>
        (Some ex_extractions)) = Inr [''Dana'']"
  using extract_entities_confidence_filter [of
      "\<lparr>OPENAI_API_KEY = Some ''k'', MIN_CONFIDENCE = None\<rparr>"
      ex_float "0.7" "\<lambda>s. s" ex_extractions]
    extract_entities_confidence_filter [of
      "\<lparr>OPENAI_API_KEY = Some ''k'', MIN_CONFIDENCE = Some ''0.9''\<rparr>"
      ex_float "0.9" "\<lambda>s. s" ex_extractions]
  by (simp add: extract_entities_def min_confidence_def candidates_def ground_def
      ex_extractions_def ex_extraction_def ex_float_def List.map_filter_simps Let_def)

end
